theory Spec2Isabelle
  imports Main "HOL-Library.AList"
begin

section \<open>JavaScript values\<close>

text \<open>
  The fields of the objects that travel between the clients and the server hold strings,
  numbers, \<^verbatim>\<open>null\<close> or nothing at all (\<^verbatim>\<open>undefined\<close>). Numbers are modelled by
  integers (a JavaScript double is exact on integers below \<open>2^53\<close>) together with
  \<^verbatim>\<open>NaN\<close>, which \<^verbatim>\<open>parseInt\<close> produces. A string is a list of code units; the model
  covers code units below 256.
\<close>

datatype jsval = JUndef | JNull | JStr string | JNum int | JNaN

text \<open>\<^verbatim>\<open>a === b\<close>\<close>

fun strict_eq :: "jsval \<Rightarrow> jsval \<Rightarrow> bool" where
  "strict_eq JUndef JUndef = True"
| "strict_eq JNull JNull = True"
| "strict_eq (JStr a) (JStr b) = (a = b)"
| "strict_eq (JNum a) (JNum b) = (a = b)"
| "strict_eq _ _ = False"

text \<open>
  \<^verbatim>\<open>a == b\<close>. Between a number and a string the string is converted with the language's
  \<^verbatim>\<open>ToNumber\<close>, which is a parameter \<open>tn\<close> of the model: \<open>tn s = Some n\<close> when the string
  \<open>s\<close> denotes the integer \<open>n\<close>, and \<open>None\<close> when it denotes \<^verbatim>\<open>NaN\<close> or a number that
  is not an integer. Every theorem below holds for every such conversion.
\<close>

fun loose_eq :: "(string \<Rightarrow> int option) \<Rightarrow> jsval \<Rightarrow> jsval \<Rightarrow> bool" where
  "loose_eq tn JUndef JUndef = True"
| "loose_eq tn JUndef JNull = True"
| "loose_eq tn JNull JUndef = True"
| "loose_eq tn JNull JNull = True"
| "loose_eq tn (JStr a) (JStr b) = (a = b)"
| "loose_eq tn (JNum a) (JNum b) = (a = b)"
| "loose_eq tn (JNum a) (JStr b) = (tn b = Some a)"
| "loose_eq tn (JStr a) (JNum b) = (tn a = Some b)"
| "loose_eq tn _ _ = False"

text \<open>The truth value of \<^verbatim>\<open>if (v)\<close>, \<^verbatim>\<open>!v\<close> and \<^verbatim>\<open>v || d\<close>.\<close>

fun truthy :: "jsval \<Rightarrow> bool" where
  "truthy JUndef = False"
| "truthy JNull = False"
| "truthy (JStr s) = (s \<noteq> [])"
| "truthy (JNum n) = (n \<noteq> 0)"
| "truthy JNaN = False"

text \<open>\<^verbatim>\<open>v || d\<close>\<close>

definition or_else :: "jsval \<Rightarrow> jsval \<Rightarrow> jsval" where
  "or_else v d = (if truthy v then v else d)"

subsection \<open>Strings and decimal numerals\<close>

definition is_digit :: "char \<Rightarrow> bool" where
  "is_digit c = (c \<in> set ''0123456789'')"

text \<open>White space of \<^verbatim>\<open>trim\<close>, of \<^verbatim>\<open>\s\<close> and of \<^verbatim>\<open>parseInt\<close>, among the code units below 256.\<close>

definition is_space :: "char \<Rightarrow> bool" where
  "is_space c = (of_char c \<in> {9, 10, 11, 12, 13, 32, 160 :: nat})"

definition digit_val :: "char \<Rightarrow> nat" where
  "digit_val c = of_char c - 48"

definition parse_dec :: "string \<Rightarrow> nat" where
  "parse_dec ds = foldl (\<lambda>acc c. 10 * acc + digit_val c) 0 ds"

definition digit_char :: "nat \<Rightarrow> char" where
  "digit_char d = ''0123456789'' ! d"

fun show_nat :: "nat \<Rightarrow> string" where
  "show_nat n = (if n < 10 then [digit_char n] else show_nat (n div 10) @ [digit_char (n mod 10)])"

declare show_nat.simps [simp del]

definition show_int :: "int \<Rightarrow> string" where
  "show_int i = (if i < 0 then CHR ''-'' # show_nat (nat (- i)) else show_nat (nat i))"

text \<open>\<^verbatim>\<open>String(v)\<close>, also the conversion inside a template literal.\<close>

fun to_string :: "jsval \<Rightarrow> string" where
  "to_string JUndef = ''undefined''"
| "to_string JNull = ''null''"
| "to_string (JStr s) = s"
| "to_string (JNum n) = show_int n"
| "to_string JNaN = ''NaN''"

text \<open>
  \<^verbatim>\<open>parseInt(v)\<close> with no radix: the argument is converted to a string, leading white space
  and one sign are skipped, and the longest run of decimal digits is read; with no digit the
  result is \<^verbatim>\<open>NaN\<close>. A \<^verbatim>\<open>0x\<close> prefix selects hexadecimal digits.
\<close>

definition hex_val :: "char \<Rightarrow> nat" where
  "hex_val c = (if is_digit c then digit_val c
                else if c \<in> set ''abcdef'' then of_char c - 87
                else of_char c - 55)"

definition is_hex :: "char \<Rightarrow> bool" where
  "is_hex c = (c \<in> set ''0123456789abcdefABCDEF'')"

definition parse_magnitude :: "string \<Rightarrow> nat option" where
  "parse_magnitude s =
     (if take 2 s = ''0x'' \<or> take 2 s = ''0X'' then
        (case takeWhile is_hex (drop 2 s) of
           [] \<Rightarrow> None
         | hs \<Rightarrow> Some (foldl (\<lambda>acc c. 16 * acc + hex_val c) 0 hs))
      else
        (case takeWhile is_digit s of
           [] \<Rightarrow> None
         | ds \<Rightarrow> Some (parse_dec ds)))"

definition parseInt_string :: "string \<Rightarrow> jsval" where
  "parseInt_string s =
     (let t = dropWhile is_space s;
          neg = (take 1 t = ''-'');
          u = (if take 1 t = ''-'' \<or> take 1 t = ''+'' then drop 1 t else t)
      in case parse_magnitude u of
           None \<Rightarrow> JNaN
         | Some m \<Rightarrow> JNum (if neg then - int m else int m))"

fun parseInt :: "jsval \<Rightarrow> jsval" where
  "parseInt (JStr s) = parseInt_string s"
| "parseInt (JNum n) = JNum n"
| "parseInt _ = JNaN"

text \<open>\<^verbatim>\<open>Array.prototype.findIndex\<close>; \<open>None\<close> stands for the result \<open>-1\<close>.\<close>

fun findIndex :: "('a \<Rightarrow> bool) \<Rightarrow> 'a list \<Rightarrow> nat option" where
  "findIndex p [] = None"
| "findIndex p (x # xs) =
     (if p x then Some 0 else map_option Suc (findIndex p xs))"

section \<open>Data model\<close>

text \<open>
  A field that an object does not have reads as \<open>JUndef\<close>. \<open>s_syncedFromClient\<close> is
  \<open>None\<close> when the property is absent.
\<close>

record student =
  s_id :: jsval
  s_fullName :: jsval
  s_phoneNumber :: jsval
  s_email :: jsval
  s_contactMethod :: jsval
  s_parentPhone :: jsval
  s_gradeLevel :: jsval
  s_center :: jsval
  s_school :: jsval
  s_createdAt :: jsval
  s_updatedAt :: jsval
  s_syncedFromClient :: "bool option"

record session =
  ss_attendance :: jsval
  ss_homework :: jsval
  ss_quiz :: jsval
  ss_date :: jsval

text \<open>
  \<open>r_sessions\<close> is the object \<^verbatim>\<open>sessions\<close>: property keys are strings and an
  assignment to an existing key replaces its value. The order of the keys plays no part.
\<close>

record student_record =
  r_id :: jsval
  r_fullName :: jsval
  r_parentPhone :: jsval
  r_sessions :: "(string \<times> session) list"
  r_createdAt :: jsval
  r_updatedAt :: jsval

record attendance_log =
  l_id :: jsval
  l_date :: jsval
  l_time :: jsval
  l_studentId :: jsval
  l_studentName :: jsval
  l_session :: jsval
  l_attendance :: jsval
  l_homework :: jsval
  l_quiz :: jsval
  l_createdAt :: jsval
  l_updatedAt :: jsval

text \<open>An entry of \<^verbatim>\<open>deletedStudents\<close> as \<^verbatim>\<open>deleteStudentTemporary\<close> writes it.\<close>

record tombstone =
  t_student :: student
  t_record :: "student_record option"
  t_logs :: "attendance_log list"
  t_deletedAt :: jsval
  t_deletedBy :: jsval

text \<open>The four collections of a \<^verbatim>\<open>DataManager\<close>; the server's \<^verbatim>\<open>appData\<close> adds a timestamp.\<close>

record store =
  students :: "student list"
  studentRecords :: "student_record list"
  attendanceLogs :: "attendance_log list"
  deletedStudents :: "tombstone list"

record app_data = store +
  lastUpdated :: jsval

section \<open>The server's handlers (server.js)\<close>

text \<open>
  A handler takes \<^verbatim>\<open>appData\<close>, the message and the reading of the clock, and returns the
  new \<^verbatim>\<open>appData\<close> with the messages it emits, in order: \<open>ToSender\<close> is
  \<^verbatim>\<open>socket.emit\<close>, \<open>ToAll\<close> is \<^verbatim>\<open>io.emit\<close>. The readings of the clock within one run of a
  handler are taken as equal.
\<close>

datatype qr_scan_result = QrSuccess student | QrFailure string

datatype event =
    QrScanResult qr_scan_result
  | StudentScanned jsval jsval jsval
  | DataSync app_data
  | OperationError string string
  | OperationSuccessAddStudent student
  | OperationSuccessMarkAttendance attendance_log

datatype emission = ToSender event | ToAll event

text \<open>The payload of \<^verbatim>\<open>qr-scan\<close>: \<open>q_student\<close> is \<open>None\<close> when the message has no \<^verbatim>\<open>student\<close>.\<close>

record qr_scan_data =
  q_studentId :: jsval
  q_student :: "student option"

definition qr_scan :: "app_data \<Rightarrow> qr_scan_data \<Rightarrow> jsval \<Rightarrow> app_data \<times> emission list" where
  "qr_scan appData data now =
     (case find (\<lambda>s. strict_eq (s_id s) (q_studentId data)) (students appData) of
        Some student \<Rightarrow>
          (appData,
           [ToSender (QrScanResult (QrSuccess student)),
            ToAll (StudentScanned (s_id student) (s_fullName student) now)])
      | None \<Rightarrow>
          (case q_student data of
             Some client_copy \<Rightarrow>
               (let student = client_copy\<lparr>s_syncedFromClient := Some True, s_createdAt := now\<rparr>;
                    appData1 = appData\<lparr>students := students appData @ [student]\<rparr>;
                    appData2 =
                      (if find (\<lambda>r. strict_eq (r_id r) (s_id student)) (studentRecords appData1) = None
                       then appData1\<lparr>studentRecords := studentRecords appData1 @
                              [\<lparr>r_id = s_id student, r_fullName = s_fullName student,
                                r_parentPhone = JUndef, r_sessions = [],
                                r_createdAt = now, r_updatedAt = JUndef\<rparr>]\<rparr>
                       else appData1)
                in (appData2,
                    [ToSender (QrScanResult (QrSuccess student)),
                     ToAll (StudentScanned (s_id student) (s_fullName student) now)]))
           | None \<Rightarrow>
               (appData, [ToSender (QrScanResult (QrFailure ''Student not found''))])))"

text \<open>\<^verbatim>\<open>CONFIG.sessions.maxSessions\<close>\<close>

definition maxSessions :: nat where
  "maxSessions = 8"

definition empty_session :: session where
  "empty_session = \<lparr>ss_attendance = JNull, ss_homework = JNull, ss_quiz = JNull, ss_date = JNull\<rparr>"

text \<open>The loop \<^verbatim>\<open>for (let i = 1; i <= n; i++) record.sessions[i] = {...}\<close>.\<close>

definition empty_sessions :: "nat \<Rightarrow> (string \<times> session) list" where
  "empty_sessions n = map (\<lambda>i. (show_nat i, empty_session)) [1..<Suc n]"

text \<open>The handler of \<^verbatim>\<open>add-student\<close>; the server initialises eight sessions.\<close>

definition add_student :: "app_data \<Rightarrow> student \<Rightarrow> jsval \<Rightarrow> app_data \<times> emission list" where
  "add_student appData studentData now =
     (if list_ex (\<lambda>s. strict_eq (s_id s) (s_id studentData)) (students appData) then
        (appData,
         [ToSender (OperationError ''add-student''
            (''Student with ID '' @ to_string (s_id studentData) @ '' already exists''))])
      else
        (let newStudent = studentData\<lparr>s_createdAt := now, s_updatedAt := now\<rparr>;
             record = \<lparr>r_id = s_id newStudent, r_fullName = s_fullName newStudent,
                       r_parentPhone = s_parentPhone newStudent, r_sessions = empty_sessions 8,
                       r_createdAt = now, r_updatedAt = now\<rparr>;
             appData' = appData\<lparr>students := students appData @ [newStudent],
                                studentRecords := studentRecords appData @ [record],
                                lastUpdated := now\<rparr>
         in (appData', [ToAll (DataSync appData'), ToSender (OperationSuccessAddStudent newStudent)])))"

text \<open>
  The payload of \<^verbatim>\<open>mark-attendance\<close>, which is also the argument of the client's
  \<^verbatim>\<open>addAttendanceLog\<close>.
\<close>

record attendance_data =
  a_id :: jsval
  a_studentId :: jsval
  a_studentName :: jsval
  a_session :: jsval
  a_attendance :: jsval
  a_homework :: jsval
  a_quiz :: jsval
  a_date :: jsval
  a_time :: jsval

text \<open>
  What an operation reads from its environment: \<^verbatim>\<open>new Date().toISOString()\<close>,
  \<^verbatim>\<open>toLocaleDateString('en-US')\<close>, \<^verbatim>\<open>toLocaleTimeString('en-US')\<close> and the identifier
  \<^verbatim>\<open>Date.now() + Math.random() * 1000\<close>.
\<close>

record clock =
  c_now :: jsval
  c_today :: jsval
  c_time :: jsval
  c_fresh :: jsval

text \<open>
  The test by which the server looks for the log of a student, date and session:
  \<^verbatim>\<open>log.studentId === studentId && log.date === date && log.session === session\<close>.
\<close>

definition same_triple_strict :: "jsval \<Rightarrow> jsval \<Rightarrow> jsval \<Rightarrow> attendance_log \<Rightarrow> bool" where
  "same_triple_strict studentId date session log =
     (strict_eq (l_studentId log) studentId \<and> strict_eq (l_date log) date \<and>
      strict_eq (l_session log) session)"

text \<open>
  The same test in the data manager:
  \<^verbatim>\<open>log.studentId == studentId && log.date === date && log.session == session\<close>.
\<close>

definition same_triple_loose ::
  "(string \<Rightarrow> int option) \<Rightarrow> jsval \<Rightarrow> jsval \<Rightarrow> jsval \<Rightarrow> attendance_log \<Rightarrow> bool" where
  "same_triple_loose tn studentId date session log =
     (loose_eq tn (l_studentId log) studentId \<and> strict_eq (l_date log) date \<and>
      loose_eq tn (l_session log) session)"

text \<open>The last step of both attendance writers: overwrite the entry found, or put the new one in front.\<close>

definition upsert_log ::
  "nat option \<Rightarrow> attendance_log \<Rightarrow> attendance_log list \<Rightarrow> attendance_log \<times> attendance_log list" where
  "upsert_log existingLogIndex logEntry logs =
     (case existingLogIndex of
        Some i \<Rightarrow>
          (let e = logEntry\<lparr>l_id := l_id (logs ! i), l_createdAt := l_createdAt (logs ! i)\<rparr>
           in (e, logs[i := e]))
      | None \<Rightarrow> (logEntry, logEntry # logs))"

definition mark_attendance :: "app_data \<Rightarrow> attendance_data \<Rightarrow> clock \<Rightarrow> app_data \<times> emission list" where
  "mark_attendance appData attendanceData clk =
     (let records = studentRecords appData;
          records1 =
            (case findIndex (\<lambda>r. strict_eq (r_id r) (a_studentId attendanceData)) records of
               Some recordIndex \<Rightarrow>
                 records[recordIndex := (records ! recordIndex)
                   \<lparr>r_sessions :=
                      AList.update (to_string (a_session attendanceData))
                        \<lparr>ss_attendance = a_attendance attendanceData,
                         ss_homework = a_homework attendanceData,
                         ss_quiz = a_quiz attendanceData,
                         ss_date = or_else (a_date attendanceData) (c_today clk)\<rparr>
                        (r_sessions (records ! recordIndex)),
                    r_updatedAt := c_now clk\<rparr>]
             | None \<Rightarrow> records);
          logEntry =
            \<lparr>l_id = c_fresh clk,
             l_date = or_else (a_date attendanceData) (c_today clk),
             l_time = or_else (a_time attendanceData) (c_time clk),
             l_studentId = a_studentId attendanceData,
             l_studentName = a_studentName attendanceData,
             l_session = parseInt (a_session attendanceData),
             l_attendance = a_attendance attendanceData,
             l_homework = a_homework attendanceData,
             l_quiz = parseInt (a_quiz attendanceData),
             l_createdAt = c_now clk,
             l_updatedAt = c_now clk\<rparr>;
          existingLogIndex =
            findIndex (same_triple_strict (a_studentId attendanceData) (l_date logEntry)
                         (l_session logEntry))
              (attendanceLogs appData);
          (logEntry', logs') = upsert_log existingLogIndex logEntry (attendanceLogs appData);
          appData' = appData\<lparr>studentRecords := records1, attendanceLogs := logs',
                             lastUpdated := c_now clk\<rparr>
      in (appData', [ToAll (DataSync appData'), ToSender (OperationSuccessMarkAttendance logEntry')]))"

subsection \<open>POST /api/import\<close>

text \<open>
  The body of an import: a collection is \<open>None\<close> when the body has no property of that
  name (the property reads as \<^verbatim>\<open>undefined\<close>); a property that holds something else than
  an array is not modelled. After an import \<^verbatim>\<open>appData\<close> is the body itself with a new
  timestamp, so the state after the request has the shape of a body.
\<close>

record import_body =
  b_students :: "student list option"
  b_studentRecords :: "student_record list option"
  b_attendanceLogs :: "attendance_log list option"
  b_deletedStudents :: "tombstone list option"

record raw_app_data = import_body +
  b_lastUpdated :: jsval

definition raw_of :: "app_data \<Rightarrow> raw_app_data" where
  "raw_of appData =
     \<lparr>b_students = Some (students appData), b_studentRecords = Some (studentRecords appData),
      b_attendanceLogs = Some (attendanceLogs appData),
      b_deletedStudents = Some (deletedStudents appData), b_lastUpdated = lastUpdated appData\<rparr>"

datatype http_response =
    Json200 nat nat nat
  | Json400 string
  | Json500

text \<open>
  The result is the new \<^verbatim>\<open>appData\<close>, the \<^verbatim>\<open>data-sync\<close> payloads broadcast and the
  response. Reading \<^verbatim>\<open>.length\<close> of a collection that the body does not have throws, and
  the \<^verbatim>\<open>catch\<close> answers with status 500.
\<close>

definition api_import ::
  "app_data \<Rightarrow> import_body \<Rightarrow> jsval \<Rightarrow> raw_app_data \<times> raw_app_data list \<times> http_response" where
  "api_import appData importedData now =
     (case b_students importedData of
        None \<Rightarrow> (raw_of appData, [], Json400 ''Invalid data format'')
      | Some ss \<Rightarrow>
          (let appData' =
                 \<lparr>b_students = b_students importedData,
                  b_studentRecords = b_studentRecords importedData,
                  b_attendanceLogs = b_attendanceLogs importedData,
                  b_deletedStudents = b_deletedStudents importedData,
                  b_lastUpdated = now\<rparr>
           in (appData', [appData'],
               (case b_studentRecords importedData of
                  None \<Rightarrow> Json500
                | Some rs \<Rightarrow>
                    (case b_attendanceLogs importedData of
                       None \<Rightarrow> Json500
                     | Some ls \<Rightarrow> Json200 (length ss) (length rs) (length ls))))))"

section \<open>The client's data manager (data-manager.js)\<close>

text \<open>
  A method takes the store and returns the store it leaves behind together with the value
  returned or the error thrown. The data manager compares ids with \<^verbatim>\<open>==\<close>, hence the
  parameter \<open>tn\<close>. \<^verbatim>\<open>saveToStorage\<close> only keeps a reference to the four collections
  and is left out.
\<close>

datatype error = Error string

definition getStudentById :: "(string \<Rightarrow> int option) \<Rightarrow> 'a store_scheme \<Rightarrow> jsval \<Rightarrow> student option" where
  "getStudentById tn st ident = find (\<lambda>student. loose_eq tn (s_id student) ident) (students st)"

definition getStudentRecord ::
  "(string \<Rightarrow> int option) \<Rightarrow> 'a store_scheme \<Rightarrow> jsval \<Rightarrow> student_record option" where
  "getStudentRecord tn st studentId =
     find (\<lambda>record. loose_eq tn (r_id record) studentId) (studentRecords st)"

text \<open>
  \<^verbatim>\<open>createStudentRecord\<close> returns the record object, which the caller may go on to change
  in place; the model returns its position in \<^verbatim>\<open>studentRecords\<close>.
\<close>

definition createStudentRecord ::
  "(string \<Rightarrow> int option) \<Rightarrow> store \<Rightarrow> student \<Rightarrow> jsval \<Rightarrow> store \<times> nat" where
  "createStudentRecord tn st student now =
     (case findIndex (\<lambda>record. loose_eq tn (r_id record) (s_id student)) (studentRecords st) of
        Some i \<Rightarrow> (st, i)
      | None \<Rightarrow>
          (let record = \<lparr>r_id = s_id student, r_fullName = s_fullName student,
                         r_parentPhone = s_parentPhone student,
                         r_sessions = empty_sessions maxSessions,
                         r_createdAt = now, r_updatedAt = now\<rparr>
           in (st\<lparr>studentRecords := studentRecords st @ [record]\<rparr>, length (studentRecords st))))"

text \<open>
  The argument \<^verbatim>\<open>sessionData\<close> of \<^verbatim>\<open>updateStudentSession\<close>: a field is \<open>None\<close> when the
  object has no such property, so that the spread leaves the old value.
\<close>

record session_data =
  d_attendance :: "jsval option"
  d_homework :: "jsval option"
  d_quiz :: "jsval option"
  d_date :: "jsval option"

definition absent_session :: session where
  "absent_session = \<lparr>ss_attendance = JUndef, ss_homework = JUndef, ss_quiz = JUndef, ss_date = JUndef\<rparr>"

text \<open>\<^verbatim>\<open>{...old, ...sessionData, date: sessionData.date || today}\<close>\<close>

definition merge_session :: "session option \<Rightarrow> session_data \<Rightarrow> jsval \<Rightarrow> session" where
  "merge_session old sessionData today =
     (let base = (case old of Some s \<Rightarrow> s | None \<Rightarrow> absent_session)
      in \<lparr>ss_attendance = (case d_attendance sessionData of Some v \<Rightarrow> v | None \<Rightarrow> ss_attendance base),
          ss_homework = (case d_homework sessionData of Some v \<Rightarrow> v | None \<Rightarrow> ss_homework base),
          ss_quiz = (case d_quiz sessionData of Some v \<Rightarrow> v | None \<Rightarrow> ss_quiz base),
          ss_date = or_else (case d_date sessionData of Some v \<Rightarrow> v | None \<Rightarrow> JUndef) today\<rparr>)"

text \<open>
  The second half of \<^verbatim>\<open>updateStudentSession\<close>, once the record is at hand (at position
  \<open>i\<close> of \<^verbatim>\<open>studentRecords\<close>): the check of the session number, then the write into the
  record object.
\<close>

definition write_session ::
  "store \<Rightarrow> nat \<Rightarrow> int \<Rightarrow> session_data \<Rightarrow> clock \<Rightarrow> store \<times> (error + student_record)" where
  "write_session st i sessionNumber sessionData clk =
     (if sessionNumber < 1 \<or> sessionNumber > int maxSessions then
        (st, Inl (Error (''Session number must be between 1 and '' @ show_nat maxSessions)))
      else
        (let studentRecord = studentRecords st ! i;
             key = show_int sessionNumber;
             studentRecord' = studentRecord
               \<lparr>r_sessions := AList.update key
                    (merge_session (map_of (r_sessions studentRecord) key) sessionData (c_today clk))
                    (r_sessions studentRecord),
                r_updatedAt := c_now clk\<rparr>
         in (st\<lparr>studentRecords := (studentRecords st)[i := studentRecord']\<rparr>, Inr studentRecord')))"

definition updateStudentSession ::
  "(string \<Rightarrow> int option) \<Rightarrow> store \<Rightarrow> jsval \<Rightarrow> int \<Rightarrow> session_data \<Rightarrow> clock
     \<Rightarrow> store \<times> (error + student_record)" where
  "updateStudentSession tn st studentId sessionNumber sessionData clk =
     (case findIndex (\<lambda>record. loose_eq tn (r_id record) studentId) (studentRecords st) of
        Some i \<Rightarrow> write_session st i sessionNumber sessionData clk
      | None \<Rightarrow>
          (case getStudentById tn st studentId of
             None \<Rightarrow> (st, Inl (Error (''Student with ID '' @ to_string studentId @ '' not found'')))
           | Some student \<Rightarrow>
               (let (st1, i) = createStudentRecord tn st student (c_now clk)
                in write_session st1 i sessionNumber sessionData clk)))"




subsection \<open>Adding a student\<close>

text \<open>\<^verbatim>\<open>String.prototype.trim\<close>\<close>

definition trim :: "string \<Rightarrow> string" where
  "trim s = rev (dropWhile is_space (rev (dropWhile is_space s)))"

text \<open>The test \<^verbatim>\<open>!value || value.toString().trim() === ''\<close> of a required field.\<close>

definition is_missing :: "jsval \<Rightarrow> bool" where
  "is_missing v = (\<not> truthy v \<or> trim (to_string v) = [])"

text \<open>\<^verbatim>\<open>value.length < n\<close>: a number has no \<^verbatim>\<open>length\<close>, and the comparison is then false.\<close>

fun shorter_than :: "jsval \<Rightarrow> nat \<Rightarrow> bool" where
  "shorter_than (JStr s) n = (length s < n)"
| "shorter_than _ n = False"

text \<open>\<^verbatim>\<open>/^[\+\-\s\(\)\d]+$/\<close>\<close>

definition phone_pattern :: "string \<Rightarrow> bool" where
  "phone_pattern s =
     (s \<noteq> [] \<and> list_all (\<lambda>c. c \<in> set ''+-()'' \<or> is_space c \<or> is_digit c) s)"

text \<open>
  \<^verbatim>\<open>/^[^\s@]+@[^\s@]+\.[^\s@]+$/\<close>: a non-empty part without white space or \<^verbatim>\<open>@\<close>, one
  \<^verbatim>\<open>@\<close>, and a rest without white space or \<^verbatim>\<open>@\<close> that has a dot neither first nor last.
\<close>

definition email_pattern :: "string \<Rightarrow> bool" where
  "email_pattern s =
     (let plain = (\<lambda>c. \<not> is_space c \<and> c \<noteq> CHR ''@'');
          name = takeWhile plain s;
          rest = drop (Suc (length name)) s
      in name \<noteq> [] \<and> take 1 (drop (length name) s) = ''@'' \<and>
         list_all plain rest \<and> CHR ''.'' \<in> set (tl (butlast rest)))"

text \<open>
  \<^verbatim>\<open>CONFIG.validateStudent\<close> under the rules of \<^verbatim>\<open>CONFIG.validation.student\<close>: \<^verbatim>\<open>id\<close>
  required; \<^verbatim>\<open>fullName\<close> required, at least two characters; \<^verbatim>\<open>phoneNumber\<close> required,
  with a pattern; \<^verbatim>\<open>email\<close> optional, with a pattern. The result is the list of errors.
\<close>

definition validateStudent :: "student \<Rightarrow> string list" where
  "validateStudent student =
     (if is_missing (s_id student) then [''id is required''] else []) @
     (if is_missing (s_fullName student) then [''fullName is required'']
      else if truthy (s_fullName student) \<and> shorter_than (s_fullName student) 2
           then [''fullName must be at least 2 characters long''] else []) @
     (if is_missing (s_phoneNumber student) then [''phoneNumber is required'']
      else if truthy (s_phoneNumber student) \<and> \<not> phone_pattern (to_string (s_phoneNumber student))
           then [''phoneNumber format is invalid''] else []) @
     (if truthy (s_email student) \<and> \<not> email_pattern (to_string (s_email student))
      then [''email format is invalid''] else [])"

text \<open>\<^verbatim>\<open>errors.join(', ')\<close>\<close>

fun join_comma :: "string list \<Rightarrow> string" where
  "join_comma [] = []"
| "join_comma [x] = x"
| "join_comma (x # y # ys) = x @ '', '' @ join_comma (y # ys)"

text \<open>The number that \<^verbatim>\<open>/(\d+)$/\<close> and \<^verbatim>\<open>parseInt\<close> read at the end of an id, or 0 without a match.\<close>

definition trailing_digits :: "string \<Rightarrow> string" where
  "trailing_digits s = rev (takeWhile is_digit (rev s))"

definition suffix_number :: "jsval \<Rightarrow> nat" where
  "suffix_number ident =
     (case trailing_digits (to_string ident) of
        [] \<Rightarrow> 0
      | ds \<Rightarrow> parse_dec ds)"

text \<open>\<^verbatim>\<open>Math.max(...xs)\<close> on a non-empty array\<close>

fun max_of :: "nat list \<Rightarrow> nat" where
  "max_of [] = 0"
| "max_of [x] = x"
| "max_of (x # y # ys) = max x (max_of (y # ys))"

text \<open>\<^verbatim>\<open>s.padStart(n, '0')\<close>\<close>

definition padStart :: "nat \<Rightarrow> string \<Rightarrow> string" where
  "padStart n s = replicate (n - length s) CHR ''0'' @ s"

text \<open>\<^verbatim>\<open>s.includes(p)\<close>\<close>

fun includes_str :: "string \<Rightarrow> string \<Rightarrow> bool" where
  "includes_str [] p = (p = [])"
| "includes_str (c # cs) p = (take (length p) (c # cs) = p \<or> includes_str cs p)"

definition generateNextAvailableId :: "'a store_scheme \<Rightarrow> string" where
  "generateNextAvailableId st =
     (let allStudents = students st in
      if allStudents = [] then ''2024001''
      else
        (let numericIds = filter (\<lambda>num. num > 0) (map (\<lambda>student. suffix_number (s_id student)) allStudents) in
         if numericIds = [] then ''2024001''
         else
           (let maxId = max_of numericIds;
                nextId = maxId + 1;
                lastStudentId = to_string (s_id (last allStudents))
            in if length lastStudentId = 7 \<and> list_all is_digit lastStudentId
                 then padStart 7 (show_nat nextId)
               else if includes_str lastStudentId ''2024''
                 then ''2024'' @ padStart 3 (show_nat nextId)
               else padStart 4 (show_nat nextId))))"

text \<open>
  \<^verbatim>\<open>addStudent\<close>. The class defines the method twice; this is the second definition, the one
  in effect, which reports a duplicate id with a suggestion.
\<close>

definition addStudent ::
  "(string \<Rightarrow> int option) \<Rightarrow> store \<Rightarrow> student \<Rightarrow> jsval \<Rightarrow> store \<times> (error + student)" where
  \<open>addStudent tn st studentData now =
     (if validateStudent studentData \<noteq> [] then
        (st, Inl (Error (''Invalid student data: '' @ join_comma (validateStudent studentData))))
      else
        (case getStudentById tn st (s_id studentData) of
           Some existingStudent \<Rightarrow>
             (st, Inl (Error (''DUPLICATE_ID|Student with ID "'' @ to_string (s_id studentData) @
                              ''" already exists ('' @ to_string (s_fullName existingStudent) @
                              ''). Suggested next ID: '' @ generateNextAvailableId st)))
         | None \<Rightarrow>
             (let student =
                    \<lparr>s_id = s_id studentData,
                     s_fullName = s_fullName studentData,
                     s_phoneNumber = s_phoneNumber studentData,
                     s_email = or_else (s_email studentData) (JStr ''''),
                     s_contactMethod = or_else (s_contactMethod studentData) (JStr ''phone''),
                     s_parentPhone = or_else (s_parentPhone studentData) (JStr ''''),
                     s_gradeLevel = or_else (s_gradeLevel studentData) (JStr ''''),
                     s_center = or_else (s_center studentData) (JStr ''''),
                     s_school = or_else (s_school studentData) (JStr ''''),
                     s_createdAt = now,
                     s_updatedAt = now,
                     s_syncedFromClient = None\<rparr>;
                  st1 = st\<lparr>students := students st @ [student]\<rparr>
              in (fst (createStudentRecord tn st1 student now), Inr student))))\<close>

subsection \<open>Soft delete and restore\<close>

definition deleteStudentTemporary ::
  "(string \<Rightarrow> int option) \<Rightarrow> store \<Rightarrow> jsval \<Rightarrow> jsval \<Rightarrow> store \<times> (error + tombstone)" where
  "deleteStudentTemporary tn st ident now =
     (case findIndex (\<lambda>student. loose_eq tn (s_id student) ident) (students st) of
        None \<Rightarrow> (st, Inl (Error (''Student with ID '' @ to_string ident @ '' not found'')))
      | Some studentIndex \<Rightarrow>
          (let deletedStudent = students st ! studentIndex;
               students' = take studentIndex (students st) @ drop (Suc studentIndex) (students st);
               studentRecord = find (\<lambda>record. loose_eq tn (r_id record) ident) (studentRecords st);
               studentLogs = filter (\<lambda>log. loose_eq tn (l_studentId log) ident) (attendanceLogs st);
               deletedData = \<lparr>t_student = deletedStudent, t_record = studentRecord,
                              t_logs = studentLogs, t_deletedAt = now,
                              t_deletedBy = JStr ''system''\<rparr>
           in (st\<lparr>students := students',
                  deletedStudents := deletedStudents st @ [deletedData],
                  studentRecords :=
                    filter (\<lambda>record. \<not> loose_eq tn (r_id record) ident) (studentRecords st),
                  attendanceLogs :=
                    filter (\<lambda>log. \<not> loose_eq tn (l_studentId log) ident) (attendanceLogs st)\<rparr>,
               Inr deletedData)))"

text \<open>
  The search loop of \<^verbatim>\<open>restoreStudent\<close> over entries of the shape above. The first test,
  \<^verbatim>\<open>item.student.id == id\<close>, finds an entry as it is. The second test, \<^verbatim>\<open>item.id == id\<close>,
  reads a property that such an entry does not have, so it succeeds exactly when
  \<^verbatim>\<open>undefined == id\<close>, and then wraps the entry itself as the student. The third test needs
  a \<^verbatim>\<open>fullName\<close> or \<^verbatim>\<open>name\<close> on the entry and never succeeds.
\<close>

datatype found_deleted = FoundEntry nat tombstone | FoundLegacy nat

fun find_deleted :: "(string \<Rightarrow> int option) \<Rightarrow> jsval \<Rightarrow> tombstone list \<Rightarrow> nat \<Rightarrow> found_deleted option" where
  "find_deleted tn ident [] i = None"
| "find_deleted tn ident (item # items) i =
     (if loose_eq tn (s_id (t_student item)) ident then Some (FoundEntry i item)
      else if loose_eq tn JUndef ident then Some (FoundLegacy i)
      else find_deleted tn ident items (Suc i))"

text \<open>The \<^verbatim>\<open>forEach\<close> over the logs of the entry: overwrite the first log with the same key, or append.\<close>

fun restore_logs ::
  "(string \<Rightarrow> int option) \<Rightarrow> attendance_log list \<Rightarrow> attendance_log list \<Rightarrow> attendance_log list" where
  "restore_logs tn [] current = current"
| "restore_logs tn (log # logs) current =
     restore_logs tn logs
       (case findIndex (same_triple_loose tn (l_studentId log) (l_date log) (l_session log))
               current of
          Some existingLogIndex \<Rightarrow> current[existingLogIndex := log]
        | None \<Rightarrow> current @ [log])"

definition restoreStudent ::
  "(string \<Rightarrow> int option) \<Rightarrow> store \<Rightarrow> jsval \<Rightarrow> jsval \<Rightarrow> store \<times> (error + student)" where
  "restoreStudent tn st ident now =
     (case find_deleted tn ident (deletedStudents st) 0 of
        None \<Rightarrow> (st, Inl (Error (''Deleted student with ID '' @ to_string ident @ '' not found'')))
      | Some (FoundLegacy deletedIndex) \<Rightarrow>
          (st\<lparr>deletedStudents := take deletedIndex (deletedStudents st) @
                                   drop (Suc deletedIndex) (deletedStudents st)\<rparr>,
           Inl (Error ''Invalid deleted student data structure''))
      | Some (FoundEntry deletedIndex deletedData) \<Rightarrow>
          (let st1 = st\<lparr>deletedStudents := take deletedIndex (deletedStudents st) @
                                             drop (Suc deletedIndex) (deletedStudents st)\<rparr>
           in if \<not> truthy (s_id (t_student deletedData)) then
                (st1, Inl (Error ''Invalid deleted student data structure''))
              else if getStudentById tn st1 (s_id (t_student deletedData)) \<noteq> None then
                (st1\<lparr>deletedStudents := take deletedIndex (deletedStudents st1) @ [deletedData] @
                                          drop deletedIndex (deletedStudents st1)\<rparr>,
                 Inl (Error (''Student with ID '' @ to_string (s_id (t_student deletedData)) @
                             '' already exists in active students'')))
              else
                (let st2 = st1\<lparr>students := students st1 @ [t_student deletedData]\<rparr>;
                     st3 =
                       (case t_record deletedData of
                          Some record \<Rightarrow>
                            (case findIndex (\<lambda>r. loose_eq tn (r_id r) (s_id (t_student deletedData)))
                                    (studentRecords st2) of
                               Some existingRecordIndex \<Rightarrow>
                                 st2\<lparr>studentRecords := (studentRecords st2)[existingRecordIndex := record]\<rparr>
                             | None \<Rightarrow> st2\<lparr>studentRecords := studentRecords st2 @ [record]\<rparr>)
                        | None \<Rightarrow> fst (createStudentRecord tn st2 (t_student deletedData) now));
                     st4 = st3\<lparr>attendanceLogs := restore_logs tn (t_logs deletedData) (attendanceLogs st3)\<rparr>
                 in (st4, Inr (t_student deletedData)))))"

text \<open>
  The invariant of the attendance log, at most one entry for a student, date and session,
  written with the test that the data manager itself uses to find an entry.
\<close>

fun distinct_triples :: "(string \<Rightarrow> int option) \<Rightarrow> attendance_log list \<Rightarrow> bool" where
  "distinct_triples tn [] = True"
| "distinct_triples tn (log # logs) =
     (\<not> list_ex (same_triple_loose tn (l_studentId log) (l_date log) (l_session log)) logs \<and>
      distinct_triples tn logs)"

subsection \<open>Import\<close>

text \<open>
  \<^verbatim>\<open>importData\<close>; the argument is \<open>None\<close> when it is not an object. The class defines the
  method twice with the same validation; this is the second definition, which is the one in
  effect. Nothing in the \<^verbatim>\<open>try\<close> block can throw on these data.
\<close>

record import_summary =
  i_students :: nat
  i_records :: nat
  i_logs :: nat
  i_deleted :: nat

definition importData :: "store \<Rightarrow> import_body option \<Rightarrow> store \<times> (error + import_summary)" where
  "importData st data =
     (case data of
        None \<Rightarrow> (st, Inl (Error ''Invalid data format''))
      | Some d \<Rightarrow>
          (case b_students d of
             None \<Rightarrow> (st, Inl (Error ''Invalid or missing students array''))
           | Some ss \<Rightarrow>
          (case b_studentRecords d of
             None \<Rightarrow> (st, Inl (Error ''Invalid or missing studentRecords array''))
           | Some rs \<Rightarrow>
          (case b_attendanceLogs d of
             None \<Rightarrow> (st, Inl (Error ''Invalid or missing attendanceLogs array''))
           | Some ls \<Rightarrow>
               (let ds = (case b_deletedStudents d of Some ds \<Rightarrow> ds | None \<Rightarrow> [])
                in (\<lparr>students = ss, studentRecords = rs, attendanceLogs = ls, deletedStudents = ds\<rparr>,
                    Inr \<lparr>i_students = length ss, i_records = length rs, i_logs = length ls,
                         i_deleted = length ds\<rparr>))))))"

section \<open>The synchronisation client (sync-client.js)\<close>

record sync_client =
  connected :: bool
  has_socket :: bool

text \<open>\<^verbatim>\<open>sendQRScan\<close>: the message emitted, \<open>None\<close> when the client is not connected.\<close>

definition sendQRScan :: "sync_client \<Rightarrow> jsval \<Rightarrow> qr_scan_data option" where
  "sendQRScan c studentId =
     (if \<not> connected c \<or> \<not> has_socket c then None
      else Some \<lparr>q_studentId = studentId, q_student = None\<rparr>)"

section \<open>Example data\<close>

text \<open>The student of the specification's scenario, a second student, and small stores.\<close>

definition ahmed :: student where
  "ahmed = \<lparr>s_id = JStr ''2024001'', s_fullName = JStr ''Ahmed Ali'',
            s_phoneNumber = JStr ''0100000000'', s_email = JStr '''',
            s_contactMethod = JStr ''phone'', s_parentPhone = JStr '''', s_gradeLevel = JStr '''',
            s_center = JStr '''', s_school = JStr '''',
            s_createdAt = JStr ''2024-01-15T08:00:00.000Z'',
            s_updatedAt = JStr ''2024-01-15T08:00:00.000Z'', s_syncedFromClient = None\<rparr>"

definition mona :: student where
  "mona = \<lparr>s_id = JStr ''2024002'', s_fullName = JStr ''Mona Said'',
           s_phoneNumber = JStr ''0100000001'', s_email = JStr '''',
           s_contactMethod = JStr ''phone'', s_parentPhone = JStr '''', s_gradeLevel = JStr '''',
           s_center = JStr '''', s_school = JStr '''',
           s_createdAt = JStr ''2024-01-14T10:00:00.000Z'',
           s_updatedAt = JStr ''2024-01-14T10:00:00.000Z'', s_syncedFromClient = None\<rparr>"

definition server_with_ahmed :: app_data where
  "server_with_ahmed =
     \<lparr>students = [ahmed], studentRecords = [], attendanceLogs = [], deletedStudents = [],
      lastUpdated = JStr ''2024-01-15T08:00:00.000Z''\<rparr>"

definition noon :: jsval where
  "noon = JStr ''2024-01-15T12:00:00.000Z''"

text \<open>
  \<^verbatim>\<open>ToNumber\<close> on the strings that are empty or a decimal integer with an optional sign,
  within white space; other strings are read as \<^verbatim>\<open>NaN\<close>. The examples take it for \<open>tn\<close>.
\<close>

definition ToNumber_decimal :: "string \<Rightarrow> int option" where
  "ToNumber_decimal s =
     (let t = trim s;
          u = (if take 1 t = ''-'' \<or> take 1 t = ''+'' then drop 1 t else t)
      in if t = [] then Some 0
         else if u \<noteq> [] \<and> list_all is_digit u
           then Some (if take 1 t = ''-'' then - int (parse_dec u) else int (parse_dec u))
         else None)"

definition client_with_ahmed :: store where
  "client_with_ahmed =
     \<lparr>students = [ahmed], studentRecords = [], attendanceLogs = [], deletedStudents = []\<rparr>"

definition first_session :: session where
  "first_session = \<lparr>ss_attendance = JStr ''present'', ss_homework = JStr ''complete'',
                    ss_quiz = JNum 8, ss_date = JStr ''1/15/2024''\<rparr>"

definition ahmed_record :: student_record where
  "ahmed_record =
     \<lparr>r_id = JStr ''2024001'', r_fullName = JStr ''Ahmed Ali'', r_parentPhone = JStr '''',
      r_sessions = AList.update ''1'' first_session (empty_sessions 8),
      r_createdAt = JStr ''2024-01-15T08:00:00.000Z'',
      r_updatedAt = JStr ''2024-01-15T09:00:00.000Z''\<rparr>"


definition next_day :: clock where
  "next_day = \<lparr>c_now = JStr ''2024-01-16T09:30:00.000Z'', c_today = JStr ''1/16/2024'',
               c_time = JStr ''9:30:00 AM'', c_fresh = JNum 1705397400512\<rparr>"

definition only_absent :: session_data where
  "only_absent = \<lparr>d_attendance = Some (JStr ''absent''), d_homework = None, d_quiz = None,
                  d_date = None\<rparr>"

definition present_first :: attendance_data where
  "present_first =
     \<lparr>a_id = JUndef, a_studentId = JStr ''2024001'', a_studentName = JStr ''Ahmed Ali'',
      a_session = JNum 1, a_attendance = JStr ''present'', a_homework = JStr ''complete'',
      a_quiz = JNum 8, a_date = JStr ''1/15/2024'', a_time = JUndef\<rparr>"

definition only_students :: import_body where
  "only_students =
     \<lparr>b_students = Some [mona], b_studentRecords = None, b_attendanceLogs = None,
      b_deletedStudents = None\<rparr>"

definition numeric_twin :: student where
  "numeric_twin = mona\<lparr>s_id := JNum 2024001\<rparr>"

definition same_id_as_ahmed :: student where
  "same_id_as_ahmed = mona\<lparr>s_id := JStr ''2024001''\<rparr>"







definition log_a1 :: attendance_log where
  "log_a1 = \<lparr>l_id = JNum 1705309200250, l_date = JStr ''1/15/2024'', l_time = JStr ''9:00:00 AM'',
             l_studentId = JStr ''2024001'', l_studentName = JStr ''Ahmed Ali'', l_session = JNum 1,
             l_attendance = JStr ''present'', l_homework = JStr ''complete'', l_quiz = JNum 8,
             l_createdAt = JStr ''2024-01-15T09:00:00.000Z'',
             l_updatedAt = JStr ''2024-01-15T09:00:00.000Z''\<rparr>"

definition log_m1 :: attendance_log where
  "log_m1 = log_a1\<lparr>l_id := JNum 1705309260731, l_studentId := JStr ''2024002'',
                   l_studentName := JStr ''Mona Said''\<rparr>"

definition log_a2 :: attendance_log where
  "log_a2 = log_a1\<lparr>l_id := JNum 1705397400512, l_date := JStr ''1/16/2024'', l_session := JNum 2\<rparr>"

definition client_full :: store where
  "client_full =
     \<lparr>students = [ahmed, mona], studentRecords = [ahmed_record],
      attendanceLogs = [log_a2, log_m1, log_a1], deletedStudents = []\<rparr>"

definition second_ahmed :: student where
  "second_ahmed = ahmed\<lparr>s_fullName := JStr ''Ahmed Samir''\<rparr>"

definition empty_store :: store where
  "empty_store = \<lparr>students = [], studentRecords = [], attendanceLogs = [], deletedStudents = []\<rparr>"

text \<open>
  The store after adding Ahmed Ali as 2024001, deleting 2024001, and adding Ahmed Samir as
  2024001.
\<close>

definition client_readded :: store where
  "client_readded =
     fst (addStudent ToNumber_decimal
       (fst (deleteStudentTemporary ToNumber_decimal
          (fst (addStudent ToNumber_decimal empty_store ahmed (JStr ''2024-01-15T08:00:00.000Z'')))
          (JStr ''2024001'') (JStr ''2024-01-15T10:00:00.000Z'')))
       second_ahmed noon)"

section \<open>Evaluation lemmas\<close>

lemma show_nat_digit: "n < 10 \<Longrightarrow> show_nat n = [digit_char n]"
  by (simp add: show_nat.simps)

lemma show_nat_step: "10 \<le> n \<Longrightarrow> show_nat n = show_nat (n div 10) @ [digit_char (n mod 10)]"
  by (subst show_nat.simps) simp

lemma find_None_list_ex: "(find p xs = None) = (\<not> list_ex p xs)"
  by (auto simp: find_None_iff list_ex_iff)

section \<open>QR scans\<close>

text \<open>
  C9: the message that \<^verbatim>\<open>sendQRScan\<close> emits carries the scanned id and no student
  object. So the server never adopts anything from a scan sent through this client: for an
  id that no active student of the server has, the server leaves its data as they are and
  answers with the single failure result ``Student not found''.
\<close>

theorem sendQRScan_never_adopts:
  "(\<forall>msg. sendQRScan c studentId = Some msg \<longrightarrow>
       q_studentId msg = studentId \<and> q_student msg = None) \<and>
   (connected c \<and> has_socket c \<longrightarrow> sendQRScan c studentId \<noteq> None) \<and>
   (\<forall>msg. sendQRScan c studentId = Some msg \<and>
       find (\<lambda>s. strict_eq (s_id s) studentId) (students appData) = None \<longrightarrow>
       qr_scan appData msg now =
         (appData, [ToSender (QrScanResult (QrFailure ''Student not found''))]))"
  by (auto simp: sendQRScan_def qr_scan_def)

theorem sendQRScan_never_adopts_witness:
  "sendQRScan \<lparr>connected = True, has_socket = True\<rparr> (JStr ''2024002'') =
     Some \<lparr>q_studentId = JStr ''2024002'', q_student = None\<rparr> \<and>
   find (\<lambda>s. strict_eq (s_id s) (JStr ''2024002'')) (students server_with_ahmed) = None \<and>
   qr_scan server_with_ahmed \<lparr>q_studentId = JStr ''2024002'', q_student = None\<rparr> noon =
     (server_with_ahmed, [ToSender (QrScanResult (QrFailure ''Student not found''))])"
proof -
  have sent: "sendQRScan \<lparr>connected = True, has_socket = True\<rparr> (JStr ''2024002'') =
      Some \<lparr>q_studentId = JStr ''2024002'', q_student = None\<rparr>"
    by (simp add: sendQRScan_def)
  have unknown: "find (\<lambda>s. strict_eq (s_id s) (JStr ''2024002'')) (students server_with_ahmed) = None"
    by (simp add: server_with_ahmed_def ahmed_def)
  from sent unknown
    sendQRScan_never_adopts [of "\<lparr>connected = True, has_socket = True\<rparr>" "JStr ''2024002''"
      server_with_ahmed noon]
  show ?thesis by blast
qed



lemma show_nat_maxSessions: "show_nat maxSessions = ''8''"
  by (simp add: maxSessions_def show_nat_digit digit_char_def)

lemma empty_sessions_keys:
  "empty_sessions 8 =
     [(''1'', empty_session), (''2'', empty_session), (''3'', empty_session), (''4'', empty_session),
      (''5'', empty_session), (''6'', empty_session), (''7'', empty_session), (''8'', empty_session)]"
  by (simp add: empty_sessions_def upt_rec show_nat_digit digit_char_def)

lemma session_key_cases:
  assumes "1 \<le> n" "n \<le> (8::int)"
  shows "n \<in> {1, 2, 3, 4, 5, 6, 7, 8}"
  using assms by auto

lemma show_int_digit: "0 \<le> n \<Longrightarrow> n < 10 \<Longrightarrow> show_int n = [digit_char (nat n)]"
  by (simp add: show_int_def show_nat_digit)

lemma map_of_empty_sessions:
  assumes "1 \<le> n" "n \<le> int maxSessions"
  shows "map_of (empty_sessions maxSessions) (show_int n) = Some empty_session"
proof -
  from assms have "n \<in> {1, 2, 3, 4, 5, 6, 7, 8}"
    by (simp only: maxSessions_def session_key_cases of_nat_numeral)
  then show ?thesis
    by (elim insertE emptyE)
       (simp_all add: maxSessions_def empty_sessions_keys show_int_digit digit_char_def)
qed

lemma findIndex_None_iff: "(findIndex p xs = None) = (\<not> list_ex p xs)"
  by (induction xs) auto

lemma find_eq_None_findIndex: "(find p xs = None) = (findIndex p xs = None)"
  by (simp add: findIndex_None_iff find_None_list_ex)

section \<open>Writing a session\<close>

text \<open>
  C10: \<^verbatim>\<open>updateStudentSession\<close> is called with an id that an active student has while
  neither that id nor the student's own id has a record, and with a session number outside
  \<open>1..maxSessions\<close>. The call throws the session-number error, and the store it leaves
  behind has one more record than before: the new record of that student with all sessions
  empty. The creation of the record is not undone.
\<close>

theorem updateStudentSession_error_keeps_new_record:
  assumes no_record: "getStudentRecord tn st studentId = None"
    and active: "getStudentById tn st studentId = Some student"
    and no_record_student: "getStudentRecord tn st (s_id student) = None"
    and out_of_range: "sessionNumber < 1 \<or> sessionNumber > int maxSessions"
  shows "updateStudentSession tn st studentId sessionNumber sessionData clk =
           (st\<lparr>studentRecords := studentRecords st @
                 [\<lparr>r_id = s_id student, r_fullName = s_fullName student,
                   r_parentPhone = s_parentPhone student,
                   r_sessions = empty_sessions maxSessions,
                   r_createdAt = c_now clk, r_updatedAt = c_now clk\<rparr>]\<rparr>,
            Inl (Error ''Session number must be between 1 and 8''))"
proof -
  from no_record have a: "findIndex (\<lambda>record. loose_eq tn (r_id record) studentId) (studentRecords st) = None"
    by (simp add: getStudentRecord_def find_eq_None_findIndex)
  from no_record_student
  have b: "findIndex (\<lambda>record. loose_eq tn (r_id record) (s_id student)) (studentRecords st) = None"
    by (simp add: getStudentRecord_def find_eq_None_findIndex)
  show ?thesis
    using out_of_range
    by (simp add: updateStudentSession_def a active createStudentRecord_def b Let_def
        write_session_def show_nat_maxSessions)
qed

theorem updateStudentSession_error_keeps_new_record_witness:
  "getStudentRecord ToNumber_decimal client_with_ahmed (JStr ''2024001'') = None \<and>
   getStudentById ToNumber_decimal client_with_ahmed (JStr ''2024001'') = Some ahmed \<and>
   (9::int) > int maxSessions \<and>
   updateStudentSession ToNumber_decimal client_with_ahmed (JStr ''2024001'') 9 only_absent next_day =
     (\<lparr>students = [ahmed],
       studentRecords =
         [\<lparr>r_id = JStr ''2024001'', r_fullName = JStr ''Ahmed Ali'', r_parentPhone = JStr '''',
           r_sessions = empty_sessions 8,
           r_createdAt = JStr ''2024-01-16T09:30:00.000Z'',
           r_updatedAt = JStr ''2024-01-16T09:30:00.000Z''\<rparr>],
       attendanceLogs = [], deletedStudents = []\<rparr>,
      Inl (Error ''Session number must be between 1 and 8''))"
proof -
  have a: "getStudentRecord ToNumber_decimal client_with_ahmed (JStr ''2024001'') = None"
    by (simp add: getStudentRecord_def client_with_ahmed_def)
  have b: "getStudentById ToNumber_decimal client_with_ahmed (JStr ''2024001'') = Some ahmed"
    by (simp add: getStudentById_def client_with_ahmed_def ahmed_def)
  have c: "getStudentRecord ToNumber_decimal client_with_ahmed (s_id ahmed) = None"
    by (simp add: getStudentRecord_def client_with_ahmed_def)
  have d: "(9::int) < 1 \<or> 9 > int maxSessions"
    by (simp add: maxSessions_def)
  from updateStudentSession_error_keeps_new_record [OF a b c d, of only_absent next_day] a b d
  show ?thesis
    by (simp add: client_with_ahmed_def ahmed_def next_day_def maxSessions_def)
qed





text \<open>
  C3, as amended. In the data manager: when the id belongs to an active student, neither the
  id nor the student's own id has a record and the session number is in range,
  \<^verbatim>\<open>updateStudentSession\<close> appends a record for the student, initialised with
  \<open>maxSessions\<close> empty sessions, in which the addressed slot holds the data written
  (fields not supplied stay \<^verbatim>\<open>null\<close>, the date defaults to today). On the server: when no
  record has the id of the message, \<^verbatim>\<open>mark-attendance\<close> leaves \<^verbatim>\<open>studentRecords\<close> as it is.
\<close>

theorem record_creation_on_first_mark:
  "(getStudentRecord tn st studentId = None \<and>
    getStudentById tn st studentId = Some student \<and>
    getStudentRecord tn st (s_id student) = None \<and>
    1 \<le> sessionNumber \<and> sessionNumber \<le> int maxSessions \<longrightarrow>
      (let written =
             \<lparr>ss_attendance = (case d_attendance sessionData of Some v \<Rightarrow> v | None \<Rightarrow> JNull),
              ss_homework = (case d_homework sessionData of Some v \<Rightarrow> v | None \<Rightarrow> JNull),
              ss_quiz = (case d_quiz sessionData of Some v \<Rightarrow> v | None \<Rightarrow> JNull),
              ss_date = or_else (case d_date sessionData of Some v \<Rightarrow> v | None \<Rightarrow> JUndef)
                          (c_today clk)\<rparr>;
           record' =
             \<lparr>r_id = s_id student, r_fullName = s_fullName student,
              r_parentPhone = s_parentPhone student,
              r_sessions = AList.update (show_int sessionNumber) written (empty_sessions maxSessions),
              r_createdAt = c_now clk, r_updatedAt = c_now clk\<rparr>
       in updateStudentSession tn st studentId sessionNumber sessionData clk =
            (st\<lparr>studentRecords := studentRecords st @ [record']\<rparr>, Inr record') \<and>
          map_of (r_sessions record') (show_int sessionNumber) = Some written)) \<and>
   (\<not> list_ex (\<lambda>r. strict_eq (r_id r) (a_studentId attendanceData)) (studentRecords appData) \<longrightarrow>
      studentRecords (fst (mark_attendance appData attendanceData clk')) = studentRecords appData)"
proof (intro conjI impI)
  assume h: "getStudentRecord tn st studentId = None \<and>
    getStudentById tn st studentId = Some student \<and>
    getStudentRecord tn st (s_id student) = None \<and>
    1 \<le> sessionNumber \<and> sessionNumber \<le> int maxSessions"
  then have a: "findIndex (\<lambda>record. loose_eq tn (r_id record) studentId) (studentRecords st) = None"
    and b: "findIndex (\<lambda>record. loose_eq tn (r_id record) (s_id student)) (studentRecords st) = None"
    by (simp_all add: getStudentRecord_def find_eq_None_findIndex)
  from h have slot: "map_of (empty_sessions maxSessions) (show_int sessionNumber) = Some empty_session"
    by (simp add: map_of_empty_sessions)
  from h show "let written =
             \<lparr>ss_attendance = (case d_attendance sessionData of Some v \<Rightarrow> v | None \<Rightarrow> JNull),
              ss_homework = (case d_homework sessionData of Some v \<Rightarrow> v | None \<Rightarrow> JNull),
              ss_quiz = (case d_quiz sessionData of Some v \<Rightarrow> v | None \<Rightarrow> JNull),
              ss_date = or_else (case d_date sessionData of Some v \<Rightarrow> v | None \<Rightarrow> JUndef)
                          (c_today clk)\<rparr>;
           record' =
             \<lparr>r_id = s_id student, r_fullName = s_fullName student,
              r_parentPhone = s_parentPhone student,
              r_sessions = AList.update (show_int sessionNumber) written (empty_sessions maxSessions),
              r_createdAt = c_now clk, r_updatedAt = c_now clk\<rparr>
       in updateStudentSession tn st studentId sessionNumber sessionData clk =
            (st\<lparr>studentRecords := studentRecords st @ [record']\<rparr>, Inr record') \<and>
          map_of (r_sessions record') (show_int sessionNumber) = Some written"
    by (simp add: updateStudentSession_def a b createStudentRecord_def Let_def write_session_def
        slot merge_session_def empty_session_def update_conv' cong: option.case_cong)
next
  assume "\<not> list_ex (\<lambda>r. strict_eq (r_id r) (a_studentId attendanceData)) (studentRecords appData)"
  then have "findIndex (\<lambda>r. strict_eq (r_id r) (a_studentId attendanceData)) (studentRecords appData) = None"
    by (simp add: findIndex_None_iff)
  then show "studentRecords (fst (mark_attendance appData attendanceData clk')) = studentRecords appData"
    by (simp add: mark_attendance_def Let_def split: prod.splits)
qed

theorem record_creation_on_first_mark_witness:
  "getStudentRecord ToNumber_decimal client_with_ahmed (JStr ''2024001'') = None \<and>
   getStudentById ToNumber_decimal client_with_ahmed (JStr ''2024001'') = Some ahmed \<and>
   (1::int) \<le> int maxSessions \<and>
   updateStudentSession ToNumber_decimal client_with_ahmed (JStr ''2024001'') 1 only_absent next_day =
     (client_with_ahmed\<lparr>studentRecords :=
        [\<lparr>r_id = JStr ''2024001'', r_fullName = JStr ''Ahmed Ali'', r_parentPhone = JStr '''',
          r_sessions = AList.update ''1''
             \<lparr>ss_attendance = JStr ''absent'', ss_homework = JNull, ss_quiz = JNull,
              ss_date = JStr ''1/16/2024''\<rparr> (empty_sessions 8),
          r_createdAt = JStr ''2024-01-16T09:30:00.000Z'',
          r_updatedAt = JStr ''2024-01-16T09:30:00.000Z''\<rparr>]\<rparr>,
      Inr \<lparr>r_id = JStr ''2024001'', r_fullName = JStr ''Ahmed Ali'', r_parentPhone = JStr '''',
          r_sessions = AList.update ''1''
             \<lparr>ss_attendance = JStr ''absent'', ss_homework = JNull, ss_quiz = JNull,
              ss_date = JStr ''1/16/2024''\<rparr> (empty_sessions 8),
          r_createdAt = JStr ''2024-01-16T09:30:00.000Z'',
          r_updatedAt = JStr ''2024-01-16T09:30:00.000Z''\<rparr>) \<and>
   \<not> list_ex (\<lambda>r. strict_eq (r_id r) (a_studentId present_first)) (studentRecords server_with_ahmed) \<and>
   studentRecords (fst (mark_attendance server_with_ahmed present_first next_day)) = []"
proof -
  have a: "getStudentRecord ToNumber_decimal client_with_ahmed (JStr ''2024001'') = None"
    by (simp add: getStudentRecord_def client_with_ahmed_def)
  have b: "getStudentById ToNumber_decimal client_with_ahmed (JStr ''2024001'') = Some ahmed"
    by (simp add: getStudentById_def client_with_ahmed_def ahmed_def)
  have c: "getStudentRecord ToNumber_decimal client_with_ahmed (s_id ahmed) = None"
    by (simp add: getStudentRecord_def client_with_ahmed_def)
  have d: "(1::int) \<le> int maxSessions"
    by (simp add: maxSessions_def)
  have e: "\<not> list_ex (\<lambda>r. strict_eq (r_id r) (a_studentId present_first)) (studentRecords server_with_ahmed)"
    by (simp add: server_with_ahmed_def)
  from record_creation_on_first_mark [where tn = ToNumber_decimal and st = client_with_ahmed
      and studentId = "JStr ''2024001''" and student = ahmed and sessionNumber = 1
      and sessionData = only_absent and clk = next_day and attendanceData = present_first
      and appData = server_with_ahmed and clk' = next_day] a b c d e
  show ?thesis
    by (simp add: Let_def only_absent_def next_day_def ahmed_def maxSessions_def or_else_def
        show_int_digit digit_char_def server_with_ahmed_def client_with_ahmed_def)
qed

text \<open>
  The claim C3 as stated fails on the server: student 2024001 is active and has no record;
  after \<^verbatim>\<open>mark-attendance\<close> for that id there is still no record.
\<close>

theorem mark_attendance_creates_no_record:
  "\<not> list_ex (\<lambda>r. strict_eq (r_id r) (JStr ''2024001'')) (studentRecords server_with_ahmed) \<and>
   a_studentId present_first = JStr ''2024001'' \<and>
   studentRecords (fst (mark_attendance server_with_ahmed present_first next_day)) = []"
  by (simp add: mark_attendance_def server_with_ahmed_def present_first_def Let_def
      split: prod.splits)

section \<open>Import\<close>

lemma importData_validates_first:
  assumes "b_students d = None \<or> b_studentRecords d = None \<or> b_attendanceLogs d = None"
  shows "\<exists>msg. importData st (Some d) = (st, Inl (Error msg))"
  using assms by (auto simp: importData_def split: option.splits)

lemma api_import_commits_unvalidated:
  assumes "b_students body = Some ss"
    and "b_studentRecords body = None \<or> b_attendanceLogs body = None"
  shows "snd (snd (api_import appData body now)) = Json500 \<and>
         fst (api_import appData body now) \<noteq> raw_of appData \<and>
         fst (snd (api_import appData body now)) = [fst (api_import appData body now)]"
  using assms by (auto simp: api_import_def raw_of_def Let_def split: option.splits)

text \<open>
  C7 fails on the server. The handler of \<^verbatim>\<open>POST /api/import\<close> checks the shape of
  \<^verbatim>\<open>students\<close> only. For a body with an array of students and no \<^verbatim>\<open>studentRecords\<close>, it
  replaces \<^verbatim>\<open>appData\<close> by the body, broadcasts it, and only then fails and answers with
  status 500: the import is answered with an error and the previous state is gone.
\<close>

theorem api_import_error_after_commit:
  "api_import server_with_ahmed only_students noon =
     (\<lparr>b_students = Some [mona], b_studentRecords = None, b_attendanceLogs = None,
       b_deletedStudents = None, b_lastUpdated = noon\<rparr>,
      [\<lparr>b_students = Some [mona], b_studentRecords = None, b_attendanceLogs = None,
        b_deletedStudents = None, b_lastUpdated = noon\<rparr>],
      Json500) \<and>
   fst (api_import server_with_ahmed only_students noon) \<noteq> raw_of server_with_ahmed"
  by (simp add: api_import_def only_students_def raw_of_def Let_def)

section \<open>Adding a student twice\<close>

lemma ToNumber_decimal_2024001: "ToNumber_decimal ''2024001'' = Some 2024001"
  by (simp add: ToNumber_decimal_def trim_def is_space_def is_digit_def parse_dec_def digit_val_def)

text \<open>
  C4, as amended. On the server two ids are the same when they are equal under \<^verbatim>\<open>===\<close>:
  \<^verbatim>\<open>add-student\<close> for a student whose id is strictly equal to the id of an active student
  is answered with the error ``Student with ID ... already exists'' and leaves \<^verbatim>\<open>appData\<close>
  as it is, with nothing broadcast. In the data manager ids are compared with \<^verbatim>\<open>==\<close>:
  \<^verbatim>\<open>addStudent\<close> for valid data whose id is loosely equal to the id of an active student
  throws an error whose message starts with \<^verbatim>\<open>DUPLICATE_ID|\<close> and leaves the store as it is.
\<close>

theorem duplicate_id_rejected:
  "(list_ex (\<lambda>s. strict_eq (s_id s) (s_id studentData)) (students appData) \<longrightarrow>
      add_student appData studentData now =
        (appData,
         [ToSender (OperationError ''add-student''
            (''Student with ID '' @ to_string (s_id studentData) @ '' already exists''))])) \<and>
   (validateStudent studentData = [] \<and>
    getStudentById tn st (s_id studentData) = Some existingStudent \<longrightarrow>
      (\<exists>msg. addStudent tn st studentData now = (st, Inl (Error msg)) \<and>
             take 13 msg = ''DUPLICATE_ID|''))"
  by (simp add: add_student_def addStudent_def)

theorem duplicate_id_rejected_witness:
  "list_ex (\<lambda>s. strict_eq (s_id s) (s_id same_id_as_ahmed)) (students server_with_ahmed) \<and>
   add_student server_with_ahmed same_id_as_ahmed noon =
     (server_with_ahmed,
      [ToSender (OperationError ''add-student'' ''Student with ID 2024001 already exists'')]) \<and>
   validateStudent numeric_twin = [] \<and>
   getStudentById ToNumber_decimal client_with_ahmed (s_id numeric_twin) = Some ahmed \<and>
   (\<exists>msg. addStudent ToNumber_decimal client_with_ahmed numeric_twin noon =
            (client_with_ahmed, Inl (Error msg)) \<and>
          take 13 msg = ''DUPLICATE_ID|'')"
proof -
  have a: "list_ex (\<lambda>s. strict_eq (s_id s) (s_id same_id_as_ahmed)) (students server_with_ahmed)"
    by (simp add: server_with_ahmed_def same_id_as_ahmed_def ahmed_def)
  have b: "validateStudent numeric_twin = []"
    by (simp add: validateStudent_def numeric_twin_def mona_def is_missing_def trim_def
        is_space_def is_digit_def phone_pattern_def show_int_def show_nat_step show_nat_digit
        digit_char_def)
  have c: "getStudentById ToNumber_decimal client_with_ahmed (s_id numeric_twin) = Some ahmed"
    by (simp add: getStudentById_def client_with_ahmed_def numeric_twin_def ahmed_def
        ToNumber_decimal_2024001)
  from duplicate_id_rejected [where studentData = same_id_as_ahmed and appData = server_with_ahmed
      and now = noon and tn = ToNumber_decimal and st = client_with_ahmed
      and existingStudent = ahmed]
    duplicate_id_rejected [where studentData = numeric_twin and appData = server_with_ahmed
      and now = noon and tn = ToNumber_decimal and st = client_with_ahmed
      and existingStudent = ahmed]
    a b c
  show ?thesis
    by (simp add: same_id_as_ahmed_def)
qed

text \<open>
  The claim C4 as stated fails on the server: the active student has the id \<^verbatim>\<open>"2024001"\<close>,
  the new student the number \<^verbatim>\<open>2024001\<close>, which \<^verbatim>\<open>==\<close> takes for the same id; the server
  compares with \<^verbatim>\<open>===\<close>, appends the new student and reports success.
\<close>

theorem add_student_accepts_loosely_equal_id:
  "loose_eq ToNumber_decimal (s_id ahmed) (s_id numeric_twin) \<and>
   students (fst (add_student server_with_ahmed numeric_twin noon)) =
     [ahmed, numeric_twin\<lparr>s_createdAt := noon, s_updatedAt := noon\<rparr>] \<and>
   ToSender (OperationSuccessAddStudent (numeric_twin\<lparr>s_createdAt := noon, s_updatedAt := noon\<rparr>))
     \<in> set (snd (add_student server_with_ahmed numeric_twin noon))"
  by (simp add: add_student_def server_with_ahmed_def numeric_twin_def ahmed_def Let_def
      ToNumber_decimal_2024001)

section \<open>The suggested identifier\<close>












section \<open>The attendance log\<close>


lemma findIndex_Some_nth: "findIndex p xs = Some i \<Longrightarrow> i < length xs \<and> p (xs ! i)"
  by (induction xs arbitrary: i) (auto split: if_splits)










section \<open>Soft delete and restore\<close>

lemma loose_eq_sym: "loose_eq tn a b = loose_eq tn b a"
  by (cases a; cases b) auto

lemma strict_eq_sym: "strict_eq a b = strict_eq b a"
  by (cases a; cases b) auto

lemma same_triple_loose_sym:
  "same_triple_loose tn (l_studentId a) (l_date a) (l_session a) b =
   same_triple_loose tn (l_studentId b) (l_date b) (l_session b) a"
  by (simp add: same_triple_loose_def loose_eq_sym [of tn "l_studentId a"]
      loose_eq_sym [of tn "l_session a"] strict_eq_sym [of "l_date a"])

lemma loose_eq_not_undefined: "truthy a \<Longrightarrow> loose_eq tn a b \<Longrightarrow> \<not> loose_eq tn JUndef b"
  by (cases a; cases b) auto

lemma distinct_triples_filter: "distinct_triples tn logs \<Longrightarrow> distinct_triples tn (filter q logs)"
  by (induction logs) (auto simp: list_ex_iff)

lemma distinct_triples_apart:
  assumes "distinct_triples tn logs" "a \<in> set logs" "b \<in> set logs" "q a" "\<not> q b"
  shows "\<not> same_triple_loose tn (l_studentId a) (l_date a) (l_session a) b"
  using assms
proof (induction logs)
  case Nil
  then show ?case by simp
next
  case (Cons x xs)
  from Cons.prems have ab: "a \<noteq> b" by auto
  show ?case
  proof (cases "a = x")
    case True
    with Cons.prems ab have "b \<in> set xs" by auto
    with Cons.prems True show ?thesis by (auto simp: list_ex_iff)
  next
    case False
    with Cons.prems have a: "a \<in> set xs" by auto
    show ?thesis
    proof (cases "b = x")
      case True
      with Cons.prems a
      have "\<not> same_triple_loose tn (l_studentId b) (l_date b) (l_session b) a"
        by (auto simp: list_ex_iff)
      then show ?thesis by (simp add: same_triple_loose_sym [of tn a b])
    next
      case False
      with Cons.prems have "b \<in> set xs" by auto
      with Cons a show ?thesis by auto
    qed
  qed
qed

lemma restore_logs_append:
  assumes "distinct_triples tn logs"
    and "\<forall>a \<in> set logs. \<forall>b \<in> set current.
           \<not> same_triple_loose tn (l_studentId a) (l_date a) (l_session a) b"
  shows "restore_logs tn logs current = current @ logs"
  using assms
proof (induction logs arbitrary: current)
  case Nil
  then show ?case by simp
next
  case (Cons log logs)
  from Cons.prems(2)
  have none: "findIndex (same_triple_loose tn (l_studentId log) (l_date log) (l_session log)) current = None"
    by (simp add: findIndex_None_iff list_ex_iff)
  have "\<forall>a \<in> set logs. \<forall>b \<in> set (current @ [log]).
           \<not> same_triple_loose tn (l_studentId a) (l_date a) (l_session a) b"
  proof (intro ballI)
    fix a b assume a: "a \<in> set logs" and b: "b \<in> set (current @ [log])"
    show "\<not> same_triple_loose tn (l_studentId a) (l_date a) (l_session a) b"
    proof (cases "b = log")
      case True
      from Cons.prems(1) a
      have "\<not> same_triple_loose tn (l_studentId log) (l_date log) (l_session log) a"
        by (auto simp: list_ex_iff)
      with True show ?thesis by (simp add: same_triple_loose_sym [of tn a log])
    next
      case False
      with b have "b \<in> set current" by auto
      with Cons.prems(2) a show ?thesis by auto
    qed
  qed
  moreover from Cons.prems(1) have "distinct_triples tn logs" by simp
  ultimately have "restore_logs tn logs (current @ [log]) = (current @ [log]) @ logs"
    by (rule Cons.IH [rotated])
  then show ?case by (simp add: none)
qed

lemma find_deleted_last:
  assumes "\<not> list_ex (\<lambda>t. loose_eq tn (s_id (t_student t)) ident) ds"
    and "\<not> loose_eq tn JUndef ident"
    and "loose_eq tn (s_id (t_student t)) ident"
  shows "find_deleted tn ident (ds @ [t]) k = Some (FoundEntry (k + length ds) t)"
  using assms by (induction ds arbitrary: k) auto

lemma find_deleted_none:
  assumes "\<not> list_ex (\<lambda>t. loose_eq tn (s_id (t_student t)) ident) ds"
    and "\<not> loose_eq tn JUndef ident"
  shows "find_deleted tn ident ds k = None"
  using assms by (induction ds arbitrary: k) auto

lemma find_update_unmatched:
  assumes "\<not> list_ex p xs" "p r" "j < length xs"
  shows "find p (xs[j := r]) = Some r"
  using assms
proof (induction xs arbitrary: j)
  case Nil
  then show ?case by simp
next
  case (Cons x xs)
  then show ?case by (cases j) auto
qed

lemma find_append_unmatched:
  assumes "\<not> list_ex p xs" "p r"
  shows "find p (xs @ [r]) = Some r"
  using assms by (induction xs) auto

lemma find_Some_holds: "find p xs = Some r \<Longrightarrow> p r"
  by (induction xs) (auto split: if_splits)

lemma restoreStudent_found:
  assumes fd: "find_deleted tn ident (deletedStudents s) 0 = Some (FoundEntry n t)"
    and ok: "truthy (s_id (t_student t))"
    and free: "\<not> list_ex (\<lambda>x. loose_eq tn (s_id x) (s_id (t_student t))) (students s)"
  shows "\<exists>s'. restoreStudent tn s ident now = (s', Inr (t_student t)) \<and>
           students s' = students s @ [t_student t] \<and>
           deletedStudents s' = take n (deletedStudents s) @ drop (Suc n) (deletedStudents s) \<and>
           attendanceLogs s' = restore_logs tn (t_logs t) (attendanceLogs s) \<and>
           (\<forall>r. t_record t = Some r \<longrightarrow>
              studentRecords s' =
                (case findIndex (\<lambda>x. loose_eq tn (r_id x) (s_id (t_student t))) (studentRecords s) of
                   Some j \<Rightarrow> (studentRecords s)[j := r]
                 | None \<Rightarrow> studentRecords s @ [r]))"
proof -
  from free have "getStudentById tn
      (s\<lparr>deletedStudents := take n (deletedStudents s) @ drop (Suc n) (deletedStudents s)\<rparr>)
      (s_id (t_student t)) = None"
    by (simp add: getStudentById_def find_None_list_ex)
  then show ?thesis
    by (cases "t_record t")
       (auto simp: restoreStudent_def fd ok Let_def createStudentRecord_def split: option.splits)
qed

lemma restoreStudent_not_found:
  assumes "\<not> list_ex (\<lambda>t. loose_eq tn (s_id (t_student t)) ident) (deletedStudents s)"
    and "\<not> loose_eq tn JUndef ident"
  shows "restoreStudent tn s ident now =
           (s, Inl (Error (''Deleted student with ID '' @ to_string ident @ '' not found'')))"
  using assms by (simp add: restoreStudent_def find_deleted_none)

text \<open>
  C6, as amended. In a store where the id matches an active student whose own id is not
  empty and matches no other active student, where no entry of \<^verbatim>\<open>deletedStudents\<close> has a
  matching id, and where no two logs have the same student, date and session:
  \<^verbatim>\<open>deleteStudentTemporary\<close> followed by \<^verbatim>\<open>restoreStudent\<close> returns the student object that
  was deleted and puts it back at the end of the active students; a lookup of the record by
  the id gives the record that it gave before the deletion, with its sessions; the log
  holds the entries of the other students followed by the entries of the student, each once
  and in their former order; \<^verbatim>\<open>deletedStudents\<close> is as before. A second \<^verbatim>\<open>restoreStudent\<close>
  throws ``not found'' and changes nothing, so no log is duplicated.
\<close>

theorem delete_then_restore:
  assumes active: "findIndex (\<lambda>student. loose_eq tn (s_id student) ident) (students st) = Some i"
    and id_ok: "truthy (s_id (students st ! i))"
    and unique: "\<not> list_ex (\<lambda>x. loose_eq tn (s_id x) (s_id (students st ! i)))
                    (take i (students st) @ drop (Suc i) (students st))"
    and no_tombstone: "\<not> list_ex (\<lambda>t. loose_eq tn (s_id (t_student t)) ident) (deletedStudents st)"
    and logs_distinct: "distinct_triples tn (attendanceLogs st)"
  shows "\<exists>st1 deletedData st2.
           deleteStudentTemporary tn st ident now1 = (st1, Inr deletedData) \<and>
           restoreStudent tn st1 ident now2 = (st2, Inr (students st ! i)) \<and>
           students st2 = take i (students st) @ drop (Suc i) (students st) @ [students st ! i] \<and>
           (\<forall>r. getStudentRecord tn st ident = Some r \<longrightarrow> getStudentRecord tn st2 ident = Some r) \<and>
           attendanceLogs st2 =
             filter (\<lambda>log. \<not> loose_eq tn (l_studentId log) ident) (attendanceLogs st) @
             filter (\<lambda>log. loose_eq tn (l_studentId log) ident) (attendanceLogs st) \<and>
           deletedStudents st2 = deletedStudents st \<and>
           restoreStudent tn st2 ident now3 =
             (st2, Inl (Error (''Deleted student with ID '' @ to_string ident @ '' not found'')))"
proof -
  let ?A = "students st ! i"
  let ?others = "take i (students st) @ drop (Suc i) (students st)"
  let ?mine = "\<lambda>log. loose_eq tn (l_studentId log) ident"
  let ?rec = "\<lambda>record. loose_eq tn (r_id record) ident"
  let ?tomb = "\<lparr>t_student = ?A,
                t_record = find ?rec (studentRecords st),
                t_logs = filter ?mine (attendanceLogs st),
                t_deletedAt = now1, t_deletedBy = JStr ''system''\<rparr>"
  let ?st1 = "st\<lparr>students := ?others,
                  deletedStudents := deletedStudents st @ [?tomb],
                  studentRecords := filter (\<lambda>record. \<not> ?rec record) (studentRecords st),
                  attendanceLogs := filter (\<lambda>log. \<not> ?mine log) (attendanceLogs st)\<rparr>"
  have del: "deleteStudentTemporary tn st ident now1 = (?st1, Inr ?tomb)"
    by (simp add: deleteStudentTemporary_def active Let_def)
  have match: "loose_eq tn (s_id ?A) ident"
    using findIndex_Some_nth [OF active] by simp
  with id_ok have not_legacy: "\<not> loose_eq tn JUndef ident"
    by (rule loose_eq_not_undefined)
  from no_tombstone not_legacy match
  have "find_deleted tn ident (deletedStudents st @ [?tomb]) 0 =
          Some (FoundEntry (0 + length (deletedStudents st)) ?tomb)"
    by (intro find_deleted_last) simp_all
  then have fd: "find_deleted tn ident (deletedStudents ?st1) 0 =
          Some (FoundEntry (length (deletedStudents st)) ?tomb)"
    by simp
  have ok: "truthy (s_id (t_student ?tomb))"
    using id_ok by simp
  have free: "\<not> list_ex (\<lambda>x. loose_eq tn (s_id x) (s_id (t_student ?tomb))) (students ?st1)"
    using unique by simp
  from restoreStudent_found [OF fd ok free, of now2]
  obtain st2 where
      res: "restoreStudent tn ?st1 ident now2 = (st2, Inr ?A)"
    and studs: "students st2 = ?others @ [?A]"
    and dels: "deletedStudents st2 = deletedStudents st"
    and logs: "attendanceLogs st2 =
                 restore_logs tn (filter ?mine (attendanceLogs st))
                   (filter (\<lambda>log. \<not> ?mine log) (attendanceLogs st))"
    and recs: "\<forall>r. find ?rec (studentRecords st) = Some r \<longrightarrow>
                 studentRecords st2 =
                   (case findIndex (\<lambda>x. loose_eq tn (r_id x) (s_id ?A))
                           (filter (\<lambda>record. \<not> ?rec record) (studentRecords st)) of
                      Some j \<Rightarrow> (filter (\<lambda>record. \<not> ?rec record) (studentRecords st))[j := r]
                    | None \<Rightarrow> filter (\<lambda>record. \<not> ?rec record) (studentRecords st) @ [r])"
    by (auto cong: option.case_cong)
  have d1: "distinct_triples tn (filter ?mine (attendanceLogs st))"
    using logs_distinct by (rule distinct_triples_filter)
  have d2: "\<forall>a \<in> set (filter ?mine (attendanceLogs st)).
            \<forall>b \<in> set (filter (\<lambda>log. \<not> ?mine log) (attendanceLogs st)).
              \<not> same_triple_loose tn (l_studentId a) (l_date a) (l_session a) b"
    using distinct_triples_apart [OF logs_distinct, of _ _ ?mine] by auto
  from logs restore_logs_append [OF d1 d2]
  have logs': "attendanceLogs st2 =
      filter (\<lambda>log. \<not> ?mine log) (attendanceLogs st) @ filter ?mine (attendanceLogs st)"
    by simp
  have rec_kept: "getStudentRecord tn st2 ident = Some r" if r: "getStudentRecord tn st ident = Some r" for r
  proof -
    from r have f: "find ?rec (studentRecords st) = Some r"
      by (simp add: getStudentRecord_def)
    then have pr: "?rec r" by (rule find_Some_holds)
    have none: "\<not> list_ex ?rec (filter (\<lambda>record. \<not> ?rec record) (studentRecords st))"
      by (simp add: list_ex_iff)
    show ?thesis
    proof (cases "findIndex (\<lambda>x. loose_eq tn (r_id x) (s_id ?A))
                           (filter (\<lambda>record. \<not> ?rec record) (studentRecords st))")
      case None
      with recs f have "studentRecords st2 =
          filter (\<lambda>record. \<not> ?rec record) (studentRecords st) @ [r]"
        by simp
      with find_append_unmatched [OF none pr] show ?thesis
        by (simp add: getStudentRecord_def)
    next
      case (Some j)
      have j: "j < length (filter (\<lambda>record. \<not> ?rec record) (studentRecords st))"
        using findIndex_Some_nth [OF Some] by simp
      from recs f Some have "studentRecords st2 =
          (filter (\<lambda>record. \<not> ?rec record) (studentRecords st))[j := r]"
        by simp
      with find_update_unmatched [OF none pr j] show ?thesis
        by (simp add: getStudentRecord_def)
    qed
  qed
  from no_tombstone dels
  have "\<not> list_ex (\<lambda>t. loose_eq tn (s_id (t_student t)) ident) (deletedStudents st2)"
    by simp
  then have again: "restoreStudent tn st2 ident now3 =
      (st2, Inl (Error (''Deleted student with ID '' @ to_string ident @ '' not found'')))"
    using not_legacy by (rule restoreStudent_not_found)
  from del res studs rec_kept logs' dels again show ?thesis
    by (intro exI [of _ ?st1] exI [of _ ?tomb] exI [of _ st2]) simp
qed

theorem delete_then_restore_witness:
  "findIndex (\<lambda>student. loose_eq ToNumber_decimal (s_id student) (JStr ''2024001''))
     (students client_full) = Some 0 \<and>
   truthy (s_id (students client_full ! 0)) \<and>
   distinct_triples ToNumber_decimal (attendanceLogs client_full) \<and>
   deletedStudents client_full = [] \<and>
   snd (restoreStudent ToNumber_decimal
          (fst (deleteStudentTemporary ToNumber_decimal client_full (JStr ''2024001'') noon))
          (JStr ''2024001'') noon) = Inr ahmed \<and>
   students (fst (restoreStudent ToNumber_decimal
          (fst (deleteStudentTemporary ToNumber_decimal client_full (JStr ''2024001'') noon))
          (JStr ''2024001'') noon)) = [mona, ahmed] \<and>
   getStudentRecord ToNumber_decimal (fst (restoreStudent ToNumber_decimal
          (fst (deleteStudentTemporary ToNumber_decimal client_full (JStr ''2024001'') noon))
          (JStr ''2024001'') noon)) (JStr ''2024001'') = Some ahmed_record \<and>
   attendanceLogs (fst (restoreStudent ToNumber_decimal
          (fst (deleteStudentTemporary ToNumber_decimal client_full (JStr ''2024001'') noon))
          (JStr ''2024001'') noon)) = [log_m1, log_a2, log_a1] \<and>
   deletedStudents (fst (restoreStudent ToNumber_decimal
          (fst (deleteStudentTemporary ToNumber_decimal client_full (JStr ''2024001'') noon))
          (JStr ''2024001'') noon)) = []"
proof -
  have a: "findIndex (\<lambda>student. loose_eq ToNumber_decimal (s_id student) (JStr ''2024001''))
     (students client_full) = Some 0"
    by (simp add: client_full_def ahmed_def)
  have b: "truthy (s_id (students client_full ! 0))"
    by (simp add: client_full_def ahmed_def)
  have c: "\<not> list_ex (\<lambda>x. loose_eq ToNumber_decimal (s_id x) (s_id (students client_full ! 0)))
                    (take 0 (students client_full) @ drop (Suc 0) (students client_full))"
    by (simp add: client_full_def ahmed_def mona_def)
  have d: "\<not> list_ex (\<lambda>t. loose_eq ToNumber_decimal (s_id (t_student t)) (JStr ''2024001''))
             (deletedStudents client_full)"
    by (simp add: client_full_def)
  have e: "distinct_triples ToNumber_decimal (attendanceLogs client_full)"
    by (simp add: client_full_def log_a1_def log_a2_def log_m1_def same_triple_loose_def)
  have r: "getStudentRecord ToNumber_decimal client_full (JStr ''2024001'') = Some ahmed_record"
    by (simp add: getStudentRecord_def client_full_def ahmed_record_def)
  from delete_then_restore [OF a b c d e, of noon noon noon]
  obtain st1 deletedData st2 where
      del: "deleteStudentTemporary ToNumber_decimal client_full (JStr ''2024001'') noon =
              (st1, Inr deletedData)"
    and res: "restoreStudent ToNumber_decimal st1 (JStr ''2024001'') noon =
              (st2, Inr (students client_full ! 0))"
    and studs: "students st2 = take 0 (students client_full) @ drop (Suc 0) (students client_full) @
                  [students client_full ! 0]"
    and recs: "\<forall>r. getStudentRecord ToNumber_decimal client_full (JStr ''2024001'') = Some r \<longrightarrow>
                  getStudentRecord ToNumber_decimal st2 (JStr ''2024001'') = Some r"
    and logs: "attendanceLogs st2 =
                 filter (\<lambda>log. \<not> loose_eq ToNumber_decimal (l_studentId log) (JStr ''2024001''))
                   (attendanceLogs client_full) @
                 filter (\<lambda>log. loose_eq ToNumber_decimal (l_studentId log) (JStr ''2024001''))
                   (attendanceLogs client_full)"
    and dels: "deletedStudents st2 = deletedStudents client_full"
    by blast
  from del have s1: "fst (deleteStudentTemporary ToNumber_decimal client_full (JStr ''2024001'') noon) = st1"
    by simp
  from res have s2: "fst (restoreStudent ToNumber_decimal st1 (JStr ''2024001'') noon) = st2"
    "snd (restoreStudent ToNumber_decimal st1 (JStr ''2024001'') noon) = Inr (students client_full ! 0)"
    by simp_all
  from recs r have r2: "getStudentRecord ToNumber_decimal st2 (JStr ''2024001'') = Some ahmed_record"
    by simp
  have vals: "students client_full = [ahmed, mona]" "deletedStudents client_full = []"
    "filter (\<lambda>log. \<not> loose_eq ToNumber_decimal (l_studentId log) (JStr ''2024001''))
       (attendanceLogs client_full) = [log_m1]"
    "filter (\<lambda>log. loose_eq ToNumber_decimal (l_studentId log) (JStr ''2024001''))
       (attendanceLogs client_full) = [log_a2, log_a1]"
    by (simp_all add: client_full_def log_a1_def log_a2_def log_m1_def)
  from a b e show ?thesis
    by (simp add: s1 s2 studs r2 logs dels vals)
qed

lemma validateStudent_ahmed: "validateStudent ahmed = []" "validateStudent second_ahmed = []"
  by (simp_all add: validateStudent_def second_ahmed_def ahmed_def is_missing_def trim_def
      is_space_def is_digit_def phone_pattern_def)

lemma client_readded_value:
  "client_readded =
     \<lparr>students = [second_ahmed\<lparr>s_createdAt := noon, s_updatedAt := noon\<rparr>],
      studentRecords =
        [\<lparr>r_id = JStr ''2024001'', r_fullName = JStr ''Ahmed Samir'', r_parentPhone = JStr '''',
          r_sessions = empty_sessions maxSessions, r_createdAt = noon, r_updatedAt = noon\<rparr>],
      attendanceLogs = [],
      deletedStudents =
        [\<lparr>t_student = ahmed,
          t_record = Some \<lparr>r_id = JStr ''2024001'', r_fullName = JStr ''Ahmed Ali'',
                            r_parentPhone = JStr '''', r_sessions = empty_sessions maxSessions,
                            r_createdAt = JStr ''2024-01-15T08:00:00.000Z'',
                            r_updatedAt = JStr ''2024-01-15T08:00:00.000Z''\<rparr>,
          t_logs = [], t_deletedAt = JStr ''2024-01-15T10:00:00.000Z'',
          t_deletedBy = JStr ''system''\<rparr>]\<rparr>"
proof -
  have s1: "fst (addStudent ToNumber_decimal empty_store ahmed (JStr ''2024-01-15T08:00:00.000Z'')) =
      \<lparr>students = [ahmed],
       studentRecords =
         [\<lparr>r_id = JStr ''2024001'', r_fullName = JStr ''Ahmed Ali'',
           r_parentPhone = JStr '''', r_sessions = empty_sessions maxSessions,
           r_createdAt = JStr ''2024-01-15T08:00:00.000Z'',
           r_updatedAt = JStr ''2024-01-15T08:00:00.000Z''\<rparr>],
       attendanceLogs = [], deletedStudents = []\<rparr>"
    by (simp add: addStudent_def validateStudent_ahmed getStudentById_def empty_store_def Let_def
        createStudentRecord_def)
       (simp add: ahmed_def or_else_def)
  show ?thesis
    unfolding client_readded_def s1
    by (simp add: deleteStudentTemporary_def Let_def addStudent_def validateStudent_ahmed
        getStudentById_def createStudentRecord_def)
       (simp add: ahmed_def second_ahmed_def or_else_def)
qed

text \<open>
  The claim C6 as stated fails where \<^verbatim>\<open>deletedStudents\<close> already holds an entry with the
  id: \<^verbatim>\<open>addStudent\<close> checks the active students only, so a student can be added under the id
  of a deleted one. Ahmed Ali was added as 2024001 and deleted, then Ahmed Samir was added as
  2024001. Deleting Ahmed Samir and restoring 2024001 brings back Ahmed Ali; Ahmed Samir
  stays in \<^verbatim>\<open>deletedStudents\<close>.
\<close>

theorem restore_returns_older_tombstone:
  "students client_readded = [second_ahmed\<lparr>s_createdAt := noon, s_updatedAt := noon\<rparr>] \<and>
   second_ahmed\<lparr>s_createdAt := noon, s_updatedAt := noon\<rparr> \<noteq> ahmed \<and>
   snd (restoreStudent ToNumber_decimal
          (fst (deleteStudentTemporary ToNumber_decimal client_readded (JStr ''2024001'') noon))
          (JStr ''2024001'') noon) = Inr ahmed \<and>
   students (fst (restoreStudent ToNumber_decimal
          (fst (deleteStudentTemporary ToNumber_decimal client_readded (JStr ''2024001'') noon))
          (JStr ''2024001'') noon)) = [ahmed] \<and>
   map t_student (deletedStudents (fst (restoreStudent ToNumber_decimal
          (fst (deleteStudentTemporary ToNumber_decimal client_readded (JStr ''2024001'') noon))
          (JStr ''2024001'') noon))) = [second_ahmed\<lparr>s_createdAt := noon, s_updatedAt := noon\<rparr>]"
proof -
  have ne: "second_ahmed\<lparr>s_createdAt := noon, s_updatedAt := noon\<rparr> \<noteq> ahmed"
    by (simp add: second_ahmed_def ahmed_def)
  have ids: "s_id second_ahmed = JStr ''2024001''" "s_id ahmed = JStr ''2024001''"
    by (simp_all add: second_ahmed_def ahmed_def)
  show ?thesis
    by (simp add: client_readded_value ne)
       (simp add: deleteStudentTemporary_def restoreStudent_def getStudentById_def Let_def ids)
qed

end
